theory Spec2Isabelle
  imports Complex_Main "HOL-Library.Word"
begin

section \<open>The protocol table (miia\_bit\_definitions.py)\<close>

text \<open>
  Python integers are unbounded: they are \<open>int\<close>. A dictionary with string keys is a
  map \<open>string \<rightharpoonup> int\<close>; the test \<^verbatim>\<open>k in d\<close> is \<open>dict_contains\<close>. The three
  \<^verbatim>\<open>range(lo, hi)\<close> objects are the integer intervals \<open>{lo..<hi}\<close>.
\<close>

definition BAUD_RATE :: int where
  "BAUD_RATE = 57600"

definition TIMEOUT :: rat where
  "TIMEOUT = 1 / 10"

definition miia_bit_opcodes :: "string \<rightharpoonup> int" where
  "miia_bit_opcodes =
     [''buzzer'' \<mapsto> 201,
      ''motor_a'' \<mapsto> 202,
      ''motor_b'' \<mapsto> 203,
      ''rgb_led_r'' \<mapsto> 204,
      ''rgb_led_g'' \<mapsto> 205,
      ''rgb_led_b'' \<mapsto> 206,
      ''servo'' \<mapsto> 208]"

definition miia_bit_motors :: "string list" where
  "miia_bit_motors = [''a'', ''b'']"

definition miia_bit_motor_speed_range :: "int set" where
  "miia_bit_motor_speed_range = {0..<101}"

definition miia_bit_motor_directions :: "string \<rightharpoonup> int" where
  "miia_bit_motor_directions = [''reverse'' \<mapsto> 1, ''forward'' \<mapsto> 0]"

definition miia_bit_buzzer_states :: "string \<rightharpoonup> int" where
  "miia_bit_buzzer_states = [''on'' \<mapsto> 1, ''off'' \<mapsto> 0]"

definition miia_bit_servo_range :: "int set" where
  "miia_bit_servo_range = {0..<101}"

definition miia_bit_calibration_range :: "int set" where
  "miia_bit_calibration_range = {-50..<51}"

definition miia_bit_rgb_led_range :: "int set" where
  "miia_bit_rgb_led_range = {0..<101}"

definition dict_contains :: "(string \<rightharpoonup> int) \<Rightarrow> string \<Rightarrow> bool" where
  "dict_contains d k = (d k \<noteq> None)"


section \<open>Exceptions, bytes and the serial port\<close>

text \<open>
  The exceptions the driver can raise: a failed \<^verbatim>\<open>assert\<close> (with its message), a
  missing dictionary key, and \<^verbatim>\<open>struct.error\<close> from \<^verbatim>\<open>struct.pack\<close> and
  \<^verbatim>\<open>struct.unpack\<close>. Assertions are modelled as enabled (the interpreter is not run
  with \<^verbatim>\<open>-O\<close>).
\<close>

datatype error = AssertionError string | KeyError string | StructError

type_synonym byte = "8 word"

text \<open>
  \<^verbatim>\<open>struct.pack("!1B", item)\<close> of the standard library: one unsigned byte for an
  integer in 0..255, \<^verbatim>\<open>struct.error\<close> for any other integer (it never wraps).
  \<^verbatim>\<open>struct.unpack("!6B", buf)\<close>: six integers for a buffer of exactly six bytes,
  \<^verbatim>\<open>struct.error\<close> for a buffer of any other length.
\<close>

definition struct_pack_1B :: "int \<Rightarrow> error + byte list" where
  "struct_pack_1B item =
     (if 0 \<le> item \<and> item \<le> 255 then Inr [word_of_int item] else Inl StructError)"

definition struct_unpack_6B :: "byte list \<Rightarrow> error + int list" where
  "struct_unpack_6B buf =
     (if length buf = 6 then Inr (map uint buf) else Inl StructError)"

text \<open>
  The serial port is the recording channel the specification tests against: \<open>written\<close>
  is the log of the \<^verbatim>\<open>write\<close> calls, one entry per call, and \<open>incoming\<close> holds the
  bytes the robot delivers before the read timeout elapses. \<^verbatim>\<open>read(size=n)\<close> returns
  at most \<open>n\<close> of them, fewer when fewer have arrived, and consumes what it returns.
\<close>

record serial =
  port :: string
  baudrate :: int
  ser_timeout :: rat
  written :: "byte list list"
  incoming :: "byte list"

definition Serial :: "string \<Rightarrow> int \<Rightarrow> rat \<Rightarrow> byte list \<Rightarrow> serial" where
  "Serial p b t arriving =
     \<lparr>port = p, baudrate = b, ser_timeout = t, written = [], incoming = arriving\<rparr>"

definition serial_write :: "serial \<Rightarrow> byte list \<Rightarrow> serial" where
  "serial_write ch item = ch\<lparr>written := written ch @ [item]\<rparr>"

definition serial_read :: "serial \<Rightarrow> nat \<Rightarrow> byte list \<times> serial" where
  "serial_read ch n = (take n (incoming ch), ch\<lparr>incoming := drop n (incoming ch)\<rparr>)"

definition wire :: "serial \<Rightarrow> int list" where
  "wire ch = map uint (concat (written ch))"


section \<open>The device controller (miipy\_miiabit.py)\<close>

text \<open>
  The object's attributes are the fields of a record. The two cached sensor values start
  as \<^verbatim>\<open>None\<close>. A method takes the object and returns the exception it raised, if any,
  together with the object as the call left it: what was mutated before a
  \<^verbatim>\<open>raise\<close> stays mutated.
\<close>

record MiiABit =
  device :: string
  baud_rate :: int
  timeout :: rat
  serial_connection :: serial
  motor_cal_values :: "string \<rightharpoonup> int"
  distance_sensor :: "int option"
  input_button_state :: "int option"

fun pack_loop :: "int list \<Rightarrow> byte list list \<Rightarrow> error + byte list list" where
  "pack_loop [] packed_data_array = Inr packed_data_array"
| "pack_loop (item # data) packed_data_array =
     (case struct_pack_1B item of
        Inl e \<Rightarrow> Inl e
      | Inr p \<Rightarrow> pack_loop data (packed_data_array @ [p]))"

definition pack_data_array :: "int list \<Rightarrow> error + byte list list" where
  "pack_data_array data = pack_loop data []"

fun send_data :: "MiiABit \<Rightarrow> byte list list \<Rightarrow> MiiABit" where
  "send_data self [] = self"
| "send_data self (item # data_array) =
     send_data (self\<lparr>serial_connection := serial_write (serial_connection self) item\<rparr>)
       data_array"

definition connection_ready :: "MiiABit \<Rightarrow> error option \<times> MiiABit" where
  "connection_ready self =
     (case pack_data_array [0] of
        Inl e \<Rightarrow> (Some e, self)
      | Inr data \<Rightarrow> (None, send_data self data))"

definition MiiABit_init ::
  "string \<Rightarrow> int \<Rightarrow> rat \<Rightarrow> int \<Rightarrow> int \<Rightarrow> byte list \<Rightarrow> error option \<times> MiiABit" where
  "MiiABit_init dev baud tmo motor_a_calibration motor_b_calibration arriving =
     connection_ready
       \<lparr>device = dev, baud_rate = baud, timeout = tmo,
        serial_connection = Serial dev baud tmo arriving,
        motor_cal_values = [''a'' \<mapsto> motor_a_calibration, ''b'' \<mapsto> motor_b_calibration],
        distance_sensor = None,
        input_button_state = None\<rparr>"

definition receive_data :: "MiiABit \<Rightarrow> error option \<times> MiiABit" where
  "receive_data self =
     (case serial_read (serial_connection self) 6 of
        (buf, ch) \<Rightarrow>
          (let self1 = self\<lparr>serial_connection := ch\<rparr> in
           case struct_unpack_6B buf of
             Inl e \<Rightarrow> (Some e, self1)
           | Inr rcvd \<Rightarrow>
               (let self2 = self1\<lparr>input_button_state := Some (rcvd ! 1)\<rparr>;
                    self3 = self2\<lparr>distance_sensor := Some (rcvd ! 4)\<rparr>
                in (None, self3))))"

definition get_data_from_sensors :: "MiiABit \<Rightarrow> error option \<times> MiiABit" where
  "get_data_from_sensors self = receive_data self"

definition set_motor_calibration :: "MiiABit \<Rightarrow> string \<Rightarrow> int \<Rightarrow> error option \<times> MiiABit" where
  "set_motor_calibration self motor calibration_factor =
     (if motor \<notin> set miia_bit_motors then
        (Some (AssertionError ''Select either motor a or b''), self)
      else if calibration_factor \<notin> miia_bit_calibration_range then
        (Some (AssertionError ''Calibration factor must be in the range -50 to 50''), self)
      else (None, self\<lparr>motor_cal_values := (motor_cal_values self)(motor \<mapsto> calibration_factor)\<rparr>))"

definition control_rgb_led :: "MiiABit \<Rightarrow> int \<Rightarrow> int \<Rightarrow> int \<Rightarrow> error option \<times> MiiABit" where
  "control_rgb_led self red green blue =
     (if red \<notin> miia_bit_rgb_led_range then
        (Some (AssertionError ''Channel intensity must be between 0 and 100''), self)
      else if green \<notin> miia_bit_rgb_led_range then
        (Some (AssertionError ''Channel intensity must be between 0 and 100''), self)
      else if blue \<notin> miia_bit_rgb_led_range then
        (Some (AssertionError ''Channel intensity must be between 0 and 100''), self)
      else
        (case miia_bit_opcodes ''rgb_led_r'' of
           None \<Rightarrow> (Some (KeyError ''rgb_led_r''), self)
         | Some op_r \<Rightarrow>
        (case miia_bit_opcodes ''rgb_led_g'' of
           None \<Rightarrow> (Some (KeyError ''rgb_led_g''), self)
         | Some op_g \<Rightarrow>
        (case miia_bit_opcodes ''rgb_led_b'' of
           None \<Rightarrow> (Some (KeyError ''rgb_led_b''), self)
         | Some op_b \<Rightarrow>
        (case pack_data_array [op_r, red, op_g, green, op_b, blue] of
           Inl e \<Rightarrow> (Some e, self)
         | Inr packed_data_array \<Rightarrow> (None, send_data self packed_data_array))))))"

text \<open>
  \<^verbatim>\<open>control_buzzer\<close> has the default argument \<^verbatim>\<open>buzzer_state=None\<close>, so its
  parameter is a \<open>string option\<close>; \<^verbatim>\<open>None\<close> is not a key of the dictionary.
\<close>

definition control_buzzer :: "MiiABit \<Rightarrow> string option \<Rightarrow> error option \<times> MiiABit" where
  "control_buzzer self buzzer_state =
     (case buzzer_state of
        None \<Rightarrow> (Some (AssertionError (''Buzzer state must be 'on' or 'off'' @ [CHR 0x27])), self)
      | Some st \<Rightarrow>
          if \<not> dict_contains miia_bit_buzzer_states st then
            (Some (AssertionError (''Buzzer state must be 'on' or 'off'' @ [CHR 0x27])), self)
          else
            (case miia_bit_opcodes ''buzzer'' of
               None \<Rightarrow> (Some (KeyError ''buzzer''), self)
             | Some opc \<Rightarrow>
            (case miia_bit_buzzer_states st of
               None \<Rightarrow> (Some (KeyError st), self)
             | Some v \<Rightarrow>
            (case pack_data_array [opc, v] of
               Inl e \<Rightarrow> (Some e, self)
             | Inr packed_data_array \<Rightarrow> (None, send_data self packed_data_array)))))"

text \<open>
  \<open>motor_data_array\<close> is lines 155 to 163 of \<^verbatim>\<open>control_motor\<close>: the opcode key
  \<^verbatim>\<open>'motor_{}'.format(motor)\<close>, the calibration added to the speed, and the three
  values of the frame. Its third element is the effective speed.
\<close>

definition motor_data_array :: "MiiABit \<Rightarrow> string \<Rightarrow> string \<Rightarrow> int \<Rightarrow> error + int list" where
  "motor_data_array self motor direction speed =
     (let selected_motor = ''motor_'' @ motor in
      case motor_cal_values self motor of
        None \<Rightarrow> Inl (KeyError motor)
      | Some cal \<Rightarrow>
          (let speed' = speed + cal in
           case miia_bit_opcodes selected_motor of
             None \<Rightarrow> Inl (KeyError selected_motor)
           | Some opc \<Rightarrow>
           (case miia_bit_motor_directions direction of
              None \<Rightarrow> Inl (KeyError direction)
            | Some d \<Rightarrow> Inr [opc, d, speed'])))"

definition control_motor :: "MiiABit \<Rightarrow> string \<Rightarrow> string \<Rightarrow> int \<Rightarrow> error option \<times> MiiABit" where
  "control_motor self motor direction speed =
     (if \<not> dict_contains miia_bit_motor_directions direction then
        (Some (AssertionError ''Direction must be either 'forward' or 'reverse''), self)
      else if speed \<notin> miia_bit_motor_speed_range then
        (Some (AssertionError ''Speed must be in the range 0 - 100''), self)
      else if motor \<notin> set miia_bit_motors then
        (Some (AssertionError ''Select either motor a or b''), self)
      else
        (case motor_data_array self motor direction speed of
           Inl e \<Rightarrow> (Some e, self)
         | Inr data_array \<Rightarrow>
        (case pack_data_array data_array of
           Inl e \<Rightarrow> (Some e, self)
         | Inr packed_data_array \<Rightarrow> (None, send_data self packed_data_array))))"

definition control_servo_motor :: "MiiABit \<Rightarrow> int \<Rightarrow> error option \<times> MiiABit" where
  "control_servo_motor self position =
     (if position \<notin> miia_bit_servo_range then
        (Some (AssertionError ''Position must be in the range 0 - 100''), self)
      else
        (case miia_bit_opcodes ''servo'' of
           None \<Rightarrow> (Some (KeyError ''servo''), self)
         | Some opc \<Rightarrow>
        (case pack_data_array [opc, position] of
           Inl e \<Rightarrow> (Some e, self)
         | Inr packed_data_array \<Rightarrow> (None, send_data self packed_data_array))))"


text \<open>
  The concrete instances below use \<open>robot ca cb arriving\<close>: the controller as its
  constructor leaves it, built with the default baud rate and timeout, the two calibration
  factors \<open>ca\<close> and \<open>cb\<close>, on a port where the bytes \<open>arriving\<close> come in.
\<close>

abbreviation robot :: "int \<Rightarrow> int \<Rightarrow> byte list \<Rightarrow> MiiABit" where
  "robot ca cb arriving \<equiv>
     snd (MiiABit_init ''/dev/ttyUSB0'' BAUD_RATE TIMEOUT ca cb arriving)"


section \<open>Basic facts\<close>

lemma send_data_written:
  "send_data self items =
     self\<lparr>serial_connection :=
       (serial_connection self)\<lparr>written := written (serial_connection self) @ items\<rparr>\<rparr>"
  by (induction items arbitrary: self) (simp_all add: serial_write_def)

lemma pack_data_array_zero: "pack_data_array [0] = Inr [[0]]"
  by (simp add: pack_data_array_def struct_pack_1B_def)

lemma init_state:
  "MiiABit_init dev baud tmo ca cb arriving =
     (None,
      \<lparr>device = dev, baud_rate = baud, timeout = tmo,
       serial_connection =
         \<lparr>port = dev, baudrate = baud, ser_timeout = tmo, written = [[0]],
          incoming = arriving\<rparr>,
       motor_cal_values = [''a'' \<mapsto> ca, ''b'' \<mapsto> cb],
       distance_sensor = None,
       input_button_state = None\<rparr>)"
  by (simp add: MiiABit_init_def connection_ready_def pack_data_array_zero send_data_written
      Serial_def)

lemma uint_byte: "0 \<le> i \<Longrightarrow> i \<le> 255 \<Longrightarrow> uint (word_of_int i :: byte) = i"
  by (simp add: unsigned_of_int take_bit_int_eq_self)

lemma pack_loop_ok:
  "(\<forall>i \<in> set data. 0 \<le> i \<and> i \<le> 255) \<Longrightarrow>
   pack_loop data acc = Inr (acc @ map (\<lambda>i. [word_of_int i]) data)"
  by (induction data arbitrary: acc) (simp_all add: struct_pack_1B_def)

lemma pack_data_array_ok:
  "(\<forall>i \<in> set data. 0 \<le> i \<and> i \<le> 255) \<Longrightarrow>
   pack_data_array data = Inr (map (\<lambda>i. [word_of_int i]) data)"
  by (simp add: pack_data_array_def pack_loop_ok)

lemma pack_loop_fail:
  "(\<exists>i \<in> set data. i < 0 \<or> 255 < i) \<Longrightarrow> pack_loop data acc = Inl StructError"
proof (induction data arbitrary: acc)
  case Nil
  then show ?case by simp
next
  case (Cons item data)
  show ?case
  proof (cases "0 \<le> item \<and> item \<le> 255")
    case True
    with Cons.prems have "\<exists>i \<in> set data. i < 0 \<or> 255 < i" by auto
    with True Cons.IH show ?thesis by (simp add: struct_pack_1B_def)
  next
    case False
    then have "struct_pack_1B item = Inl StructError"
      unfolding struct_pack_1B_def by (rule if_not_P)
    then show ?thesis by simp
  qed
qed

lemma pack_data_array_fail:
  "(\<exists>i \<in> set data. i < 0 \<or> 255 < i) \<Longrightarrow> pack_data_array data = Inl StructError"
  by (simp add: pack_data_array_def pack_loop_fail)

lemma opcode_lookup:
  "miia_bit_opcodes ''buzzer'' = Some 201"
  "miia_bit_opcodes ''motor_a'' = Some 202"
  "miia_bit_opcodes ''motor_b'' = Some 203"
  "miia_bit_opcodes ''rgb_led_r'' = Some 204"
  "miia_bit_opcodes ''rgb_led_g'' = Some 205"
  "miia_bit_opcodes ''rgb_led_b'' = Some 206"
  "miia_bit_opcodes ''servo'' = Some 208"
  by (simp_all add: miia_bit_opcodes_def)

lemma direction_lookup:
  "miia_bit_motor_directions ''forward'' = Some 0"
  "miia_bit_motor_directions ''reverse'' = Some 1"
  "dict_contains miia_bit_motor_directions d \<longleftrightarrow> d = ''forward'' \<or> d = ''reverse''"
  by (auto simp add: miia_bit_motor_directions_def dict_contains_def)

lemma buzzer_lookup:
  "miia_bit_buzzer_states ''on'' = Some 1"
  "miia_bit_buzzer_states ''off'' = Some 0"
  "dict_contains miia_bit_buzzer_states b \<longleftrightarrow> b = ''on'' \<or> b = ''off''"
  by (auto simp add: miia_bit_buzzer_states_def dict_contains_def)

lemma range_member:
  "x \<in> miia_bit_motor_speed_range \<longleftrightarrow> 0 \<le> x \<and> x \<le> 100"
  "x \<in> miia_bit_servo_range \<longleftrightarrow> 0 \<le> x \<and> x \<le> 100"
  "x \<in> miia_bit_rgb_led_range \<longleftrightarrow> 0 \<le> x \<and> x \<le> 100"
  "x \<in> miia_bit_calibration_range \<longleftrightarrow> - 50 \<le> x \<and> x \<le> 50"
  "m \<in> set miia_bit_motors \<longleftrightarrow> m = ''a'' \<or> m = ''b''"
  by (auto simp add: miia_bit_motor_speed_range_def miia_bit_servo_range_def
      miia_bit_rgb_led_range_def miia_bit_calibration_range_def miia_bit_motors_def)


section \<open>Construction\<close>

text \<open>
  C6. Constructing a controller never raises and leaves the write log of the fresh port
  holding exactly one write, of the single byte 0: the handshake is the first and only
  traffic of construction. The readiness step alone appends that one write to whatever
  log it is given.
\<close>

theorem init_handshake:
  "fst (MiiABit_init dev baud tmo ca cb arriving) = None \<and>
   written (serial_connection (snd (MiiABit_init dev baud tmo ca cb arriving))) = [[0]] \<and>
   wire (serial_connection (snd (MiiABit_init dev baud tmo ca cb arriving))) = [0] \<and>
   connection_ready self =
     (None, self\<lparr>serial_connection :=
        (serial_connection self)\<lparr>written := written (serial_connection self) @ [[0]]\<rparr>\<rparr>)"
  by (simp add: MiiABit_init_def connection_ready_def pack_data_array_zero send_data_written
      Serial_def wire_def)


lemma control_motor_sends:
  assumes "motor = ''a'' \<or> motor = ''b''"
    and "direction = ''forward'' \<or> direction = ''reverse''"
    and "0 \<le> speed" and "speed \<le> 100"
    and "motor_cal_values self motor = Some cal"
    and "0 \<le> speed + cal" and "speed + cal \<le> 255"
  shows "control_motor self motor direction speed =
           (None, send_data self
              [[if motor = ''a'' then 202 else 203],
               [if direction = ''forward'' then 0 else 1],
               [word_of_int (speed + cal)]])"
proof -
  let ?opc = "if motor = ''a'' then 202 else 203 :: int"
  let ?d = "if direction = ''forward'' then 0 else 1 :: int"
  have arr: "motor_data_array self motor direction speed = Inr [?opc, ?d, speed + cal]"
    using assms(1,2,5) by (auto simp add: motor_data_array_def opcode_lookup direction_lookup)
  have pack: "pack_data_array [?opc, ?d, speed + cal] =
      Inr [[word_of_int ?opc], [word_of_int ?d], [word_of_int (speed + cal)]]"
    using assms(6,7) by (simp add: pack_data_array_ok)
  have "control_motor self motor direction speed =
      (None, send_data self [[word_of_int ?opc], [word_of_int ?d], [word_of_int (speed + cal)]])"
    using assms(1-4) by (simp add: control_motor_def direction_lookup range_member arr pack)
  then show ?thesis by simp
qed

lemma control_motor_raises:
  assumes "motor = ''a'' \<or> motor = ''b''"
    and "direction = ''forward'' \<or> direction = ''reverse''"
    and "0 \<le> speed" and "speed \<le> 100"
    and "motor_cal_values self motor = Some cal"
    and "speed + cal < 0 \<or> 255 < speed + cal"
  shows "control_motor self motor direction speed = (Some StructError, self)"
proof -
  obtain opc d where
    arr: "motor_data_array self motor direction speed = Inr [opc, d, speed + cal]"
    using assms(1,2,5) by (auto simp add: motor_data_array_def opcode_lookup direction_lookup)
  have "pack_data_array [opc, d, speed + cal] = Inl StructError"
    using assms(6) by (intro pack_data_array_fail) auto
  with arr show ?thesis
    using assms(1-4) by (simp add: control_motor_def direction_lookup range_member)
qed


section \<open>Command frames\<close>

text \<open>
  C2. For a motor in {a, b}, a direction in {forward, reverse}, a speed in [0,100] and a
  stored calibration factor in [-50,50] whose sum with the speed lies in [0,255],
  \<^verbatim>\<open>control_motor\<close> returns normally after exactly three writes of one byte each:
  the motor's opcode (202 for a, 203 for b), the direction value (0 forward, 1 reverse)
  and speed + calibration. Nothing else of the object changes.
\<close>

theorem control_motor_frame:
  assumes "motor = ''a'' \<or> motor = ''b''"
    and "direction = ''forward'' \<or> direction = ''reverse''"
    and "0 \<le> speed" and "speed \<le> 100"
    and "motor_cal_values self motor = Some cal"
    and "- 50 \<le> cal" and "cal \<le> 50"
    and "0 \<le> speed + cal" and "speed + cal \<le> 255"
  shows "control_motor self motor direction speed =
           (None, self\<lparr>serial_connection :=
              (serial_connection self)\<lparr>written := written (serial_connection self) @
                 [[if motor = ''a'' then 202 else 203],
                  [if direction = ''forward'' then 0 else 1],
                  [word_of_int (speed + cal)]]\<rparr>\<rparr>) \<and>
         wire (serial_connection (snd (control_motor self motor direction speed))) =
           wire (serial_connection self) @
             [if motor = ''a'' then 202 else 203,
              if direction = ''forward'' then 0 else 1,
              speed + cal]"
proof -
  have first: "control_motor self motor direction speed =
           (None, self\<lparr>serial_connection :=
              (serial_connection self)\<lparr>written := written (serial_connection self) @
                 [[if motor = ''a'' then 202 else 203],
                  [if direction = ''forward'' then 0 else 1],
                  [word_of_int (speed + cal)]]\<rparr>\<rparr>)"
    using assms(1-5,8,9) by (simp add: control_motor_sends send_data_written)
  have "uint (word_of_int (speed + cal) :: byte) = speed + cal"
    using assms(8,9) by (rule uint_byte)
  then show ?thesis
    by (simp add: first wire_def)
qed

theorem control_motor_frame_witness:
  "motor_cal_values (robot 0 0 []) ''a'' = Some 0 \<and>
   written (serial_connection (snd (control_motor (robot 0 0 []) ''a'' ''forward'' 50))) =
     [[0], [202], [0], [50]] \<and>
   wire (serial_connection (snd (control_motor (robot 0 0 []) ''a'' ''forward'' 50))) =
     [0, 202, 0, 50] \<and>
   motor_cal_values (robot (- 10) 0 []) ''a'' = Some (- 10) \<and>
   written (serial_connection (snd (control_motor (robot (- 10) 0 []) ''a'' ''forward'' 50))) =
     [[0], [202], [0], [40]] \<and>
   wire (serial_connection (snd (control_motor (robot (- 10) 0 []) ''a'' ''forward'' 50))) =
     [0, 202, 0, 40]"
  using control_motor_frame [of "''a''" "''forward''" 50 "robot 0 0 []" 0]
    control_motor_frame [of "''a''" "''forward''" 50 "robot (- 10) 0 []" "- 10"]
  by (simp add: init_state wire_def)

text \<open>
  C7. With each channel intensity in [0,100], \<^verbatim>\<open>control_rgb_led\<close> returns normally
  after exactly six writes of one byte each, in the order 204, red, 205, green, 206, blue,
  and changes nothing else; with all three at 0 the bytes are 204, 0, 205, 0, 206, 0.
\<close>

theorem control_rgb_led_frame:
  assumes "0 \<le> red" and "red \<le> 100"
    and "0 \<le> green" and "green \<le> 100"
    and "0 \<le> blue" and "blue \<le> 100"
  shows "control_rgb_led self red green blue =
           (None, self\<lparr>serial_connection :=
              (serial_connection self)\<lparr>written := written (serial_connection self) @
                 [[204], [word_of_int red], [205], [word_of_int green],
                  [206], [word_of_int blue]]\<rparr>\<rparr>) \<and>
         wire (serial_connection (snd (control_rgb_led self red green blue))) =
           wire (serial_connection self) @ [204, red, 205, green, 206, blue]"
proof -
  have pack: "pack_data_array [204, red, 205, green, 206, blue] =
      Inr [[204], [word_of_int red], [205], [word_of_int green], [206], [word_of_int blue]]"
    using assms by (simp add: pack_data_array_ok)
  have first: "control_rgb_led self red green blue =
           (None, self\<lparr>serial_connection :=
              (serial_connection self)\<lparr>written := written (serial_connection self) @
                 [[204], [word_of_int red], [205], [word_of_int green],
                  [206], [word_of_int blue]]\<rparr>\<rparr>)"
    using assms
    by (simp add: control_rgb_led_def range_member opcode_lookup pack send_data_written)
  have "uint (word_of_int red :: byte) = red" "uint (word_of_int green :: byte) = green"
    "uint (word_of_int blue :: byte) = blue"
    using assms by (simp_all add: uint_byte)
  then show ?thesis
    by (simp add: first wire_def)
qed

theorem control_rgb_led_frame_witness:
  "(0::int) \<le> 0 \<and> (0::int) \<le> 100 \<and>
   written (serial_connection (snd (control_rgb_led (robot 0 0 []) 0 0 0))) =
     [[0], [204], [0], [205], [0], [206], [0]] \<and>
   wire (serial_connection (snd (control_rgb_led (robot 0 0 []) 0 0 0))) =
     [0, 204, 0, 205, 0, 206, 0] \<and>
   wire (serial_connection (snd (control_rgb_led (robot 0 0 []) 100 7 45))) =
     [0, 204, 100, 205, 7, 206, 45]"
  using control_rgb_led_frame [of 0 0 0 "robot 0 0 []"]
    control_rgb_led_frame [of 100 7 45 "robot 0 0 []"]
  by (simp add: init_state wire_def)

text \<open>
  C8. For a motor in {a, b} and a factor in [-50,50], \<^verbatim>\<open>set_motor_calibration\<close>
  returns normally, stores the factor under that motor in the calibration dictionary and
  changes nothing else: the serial port, and so its write log, is the one before the call.
\<close>

theorem set_motor_calibration_stores:
  assumes "motor = ''a'' \<or> motor = ''b''"
    and "- 50 \<le> factor" and "factor \<le> 50"
  shows "set_motor_calibration self motor factor =
           (None, self\<lparr>motor_cal_values := (motor_cal_values self)(motor \<mapsto> factor)\<rparr>) \<and>
         motor_cal_values (snd (set_motor_calibration self motor factor)) motor = Some factor \<and>
         serial_connection (snd (set_motor_calibration self motor factor)) =
           serial_connection self \<and>
         written (serial_connection (snd (set_motor_calibration self motor factor))) =
           written (serial_connection self)"
  using assms by (simp add: set_motor_calibration_def range_member)

theorem set_motor_calibration_stores_witness:
  "motor_cal_values (snd (set_motor_calibration (robot 0 0 []) ''b'' (- 50))) ''b'' =
     Some (- 50) \<and>
   motor_cal_values (snd (set_motor_calibration (robot 0 0 []) ''b'' (- 50))) ''a'' = Some 0 \<and>
   written (serial_connection (snd (set_motor_calibration (robot 0 0 []) ''b'' (- 50)))) =
     [[0]]"
  using set_motor_calibration_stores [of "''b''" "- 50" "robot 0 0 []"]
  by (simp add: init_state)


section \<open>Validation\<close>

text \<open>
  C1. Each of the five operations, given an argument outside its range or enumeration
  (a direction other than forward and reverse, a speed, servo position or LED intensity
  outside [0,100], a motor other than a and b, a buzzer state other than on and off, a
  calibration factor outside [-50,50]), raises the \<^verbatim>\<open>AssertionError\<close> of its failed
  \<^verbatim>\<open>assert\<close> and leaves the whole object as it was: no field changes, and the write
  log of the port is the one before the call, so no byte is written.
\<close>

theorem invalid_input_rejected:
  "((direction \<noteq> ''forward'' \<and> direction \<noteq> ''reverse'') \<or> speed < 0 \<or> 100 < speed \<or>
      (motor \<noteq> ''a'' \<and> motor \<noteq> ''b'') \<longrightarrow>
      (\<exists>msg. control_motor self motor direction speed = (Some (AssertionError msg), self))) \<and>
   (position < 0 \<or> 100 < position \<longrightarrow>
      (\<exists>msg. control_servo_motor self position = (Some (AssertionError msg), self))) \<and>
   (red < 0 \<or> 100 < red \<or> green < 0 \<or> 100 < green \<or> blue < 0 \<or> 100 < blue \<longrightarrow>
      (\<exists>msg. control_rgb_led self red green blue = (Some (AssertionError msg), self))) \<and>
   (buzzer_state \<noteq> Some ''on'' \<and> buzzer_state \<noteq> Some ''off'' \<longrightarrow>
      (\<exists>msg. control_buzzer self buzzer_state = (Some (AssertionError msg), self))) \<and>
   ((cal_motor \<noteq> ''a'' \<and> cal_motor \<noteq> ''b'') \<or> factor < - 50 \<or> 50 < factor \<longrightarrow>
      (\<exists>msg. set_motor_calibration self cal_motor factor = (Some (AssertionError msg), self)))"
proof (intro conjI impI)
  assume "(direction \<noteq> ''forward'' \<and> direction \<noteq> ''reverse'') \<or> speed < 0 \<or> 100 < speed \<or>
      (motor \<noteq> ''a'' \<and> motor \<noteq> ''b'')"
  then show "\<exists>msg. control_motor self motor direction speed = (Some (AssertionError msg), self)"
    by (auto simp add: control_motor_def direction_lookup range_member)
next
  assume "position < 0 \<or> 100 < position"
  then show "\<exists>msg. control_servo_motor self position = (Some (AssertionError msg), self)"
    by (auto simp add: control_servo_motor_def range_member)
next
  assume "red < 0 \<or> 100 < red \<or> green < 0 \<or> 100 < green \<or> blue < 0 \<or> 100 < blue"
  then show "\<exists>msg. control_rgb_led self red green blue = (Some (AssertionError msg), self)"
    by (auto simp add: control_rgb_led_def range_member)
next
  assume "buzzer_state \<noteq> Some ''on'' \<and> buzzer_state \<noteq> Some ''off''"
  then show "\<exists>msg. control_buzzer self buzzer_state = (Some (AssertionError msg), self)"
    by (cases buzzer_state) (auto simp add: control_buzzer_def buzzer_lookup)
next
  assume "(cal_motor \<noteq> ''a'' \<and> cal_motor \<noteq> ''b'') \<or> factor < - 50 \<or> 50 < factor"
  then show "\<exists>msg. set_motor_calibration self cal_motor factor =
      (Some (AssertionError msg), self)"
    by (auto simp add: set_motor_calibration_def range_member)
qed

theorem invalid_input_rejected_witness:
  "(100::int) < 101 \<and> (- 1::int) < 0 \<and> (50::int) < 51 \<and>
   (\<exists>msg. control_motor (robot 0 0 []) ''a'' ''forward'' 101 =
      (Some (AssertionError msg), robot 0 0 [])) \<and>
   (\<exists>msg. control_servo_motor (robot 0 0 []) (- 1) =
      (Some (AssertionError msg), robot 0 0 [])) \<and>
   (\<exists>msg. control_rgb_led (robot 0 0 []) 0 101 0 =
      (Some (AssertionError msg), robot 0 0 [])) \<and>
   (\<exists>msg. control_buzzer (robot 0 0 []) None = (Some (AssertionError msg), robot 0 0 [])) \<and>
   (\<exists>msg. set_motor_calibration (robot 0 0 []) ''a'' 51 =
      (Some (AssertionError msg), robot 0 0 [])) \<and>
   written (serial_connection (robot 0 0 [])) = [[0]]"
  using invalid_input_rejected
    [of "''forward''" 101 "''a''" "robot 0 0 []" "- 1" 0 101 0 None "''a''" 51]
  by (simp add: init_state)


section \<open>The effective speed\<close>

text \<open>
  C3, as the code has it. \<^verbatim>\<open>struct.pack("!1B", v)\<close> does not wrap: for \<open>v\<close> outside
  [0,255] it raises \<^verbatim>\<open>struct.error\<close>. With calibration -10 and speed 0 the effective
  speed is -10, \<^verbatim>\<open>control_motor\<close> raises, and the write log still holds the handshake
  only: no byte of the frame is transmitted.
\<close>

theorem control_motor_wraps_counterexample:
  "fst (control_motor (robot (- 10) 0 []) ''a'' ''forward'' 0) = Some StructError \<and>
   written (serial_connection (snd (control_motor (robot (- 10) 0 []) ''a'' ''forward'' 0))) =
     [[0]]"
  by (simp add: init_state control_motor_def motor_data_array_def direction_lookup
      range_member opcode_lookup pack_data_array_def struct_pack_1B_def)

text \<open>
  C3, amended. For valid arguments and a stored calibration factor, when speed +
  calibration lies outside [0,255] \<^verbatim>\<open>control_motor\<close> raises \<^verbatim>\<open>struct.error\<close> from
  the packing step, before any write: the object, and with it the write log, is unchanged.
\<close>

theorem control_motor_overflow_raises:
  assumes "motor = ''a'' \<or> motor = ''b''"
    and "direction = ''forward'' \<or> direction = ''reverse''"
    and "0 \<le> speed" and "speed \<le> 100"
    and "motor_cal_values self motor = Some cal"
    and "speed + cal < 0 \<or> 255 < speed + cal"
  shows "control_motor self motor direction speed = (Some StructError, self)"
  using assms by (rule control_motor_raises)

theorem control_motor_overflow_raises_witness:
  "motor_cal_values (robot (- 50) 200 []) ''a'' = Some (- 50) \<and> (20::int) + - 50 < 0 \<and>
   control_motor (robot (- 50) 200 []) ''a'' ''reverse'' 20 =
     (Some StructError, robot (- 50) 200 []) \<and>
   motor_cal_values (robot (- 50) 200 []) ''b'' = Some 200 \<and> (255::int) < 100 + 200 \<and>
   control_motor (robot (- 50) 200 []) ''b'' ''forward'' 100 =
     (Some StructError, robot (- 50) 200 []) \<and>
   written (serial_connection (robot (- 50) 200 [])) = [[0]]"
  using control_motor_overflow_raises [of "''a''" "''reverse''" 20 "robot (- 50) 200 []" "- 50"]
    control_motor_overflow_raises [of "''b''" "''forward''" 100 "robot (- 50) 200 []" 200]
  by (simp add: init_state)


text \<open>
  C10. For valid arguments of \<^verbatim>\<open>control_motor\<close> and a stored calibration factor in
  [-50,50], the frame's third value is speed + calibration and lies in [-50,150], so it
  never exceeds 255; packing it fails exactly when it is negative, and the call raises
  exactly then. Whatever their arguments, \<^verbatim>\<open>control_motor\<close>,
  \<^verbatim>\<open>control_servo_motor\<close>, \<^verbatim>\<open>control_rgb_led\<close> and \<^verbatim>\<open>control_buzzer\<close> leave the
  calibration dictionary as it was.
\<close>

theorem effective_speed_range:
  "((motor = ''a'' \<or> motor = ''b'') \<and> (direction = ''forward'' \<or> direction = ''reverse'') \<and>
    0 \<le> speed \<and> speed \<le> 100 \<and>
    motor_cal_values self motor = Some cal \<and> - 50 \<le> cal \<and> cal \<le> 50 \<longrightarrow>
      (\<exists>opc d eff. motor_data_array self motor direction speed = Inr [opc, d, eff] \<and>
         eff = speed + cal \<and> - 50 \<le> eff \<and> eff \<le> 150 \<and> eff \<le> 255 \<and>
         (struct_pack_1B eff = Inl StructError \<longleftrightarrow> eff < 0) \<and>
         (fst (control_motor self motor direction speed) = Some StructError \<longleftrightarrow> eff < 0) \<and>
         (fst (control_motor self motor direction speed) = None \<longleftrightarrow> 0 \<le> eff))) \<and>
   motor_cal_values (snd (control_motor s1 m1 d1 v1)) = motor_cal_values s1 \<and>
   motor_cal_values (snd (control_servo_motor s2 p2)) = motor_cal_values s2 \<and>
   motor_cal_values (snd (control_rgb_led s3 r3 g3 b3)) = motor_cal_values s3 \<and>
   motor_cal_values (snd (control_buzzer s4 b4)) = motor_cal_values s4"
proof (intro conjI impI)
  assume h: "(motor = ''a'' \<or> motor = ''b'') \<and>
    (direction = ''forward'' \<or> direction = ''reverse'') \<and>
    0 \<le> speed \<and> speed \<le> 100 \<and>
    motor_cal_values self motor = Some cal \<and> - 50 \<le> cal \<and> cal \<le> 50"
  then obtain opc d where
    arr: "motor_data_array self motor direction speed = Inr [opc, d, speed + cal]"
    by (auto simp add: motor_data_array_def opcode_lookup direction_lookup)
  have bounds: "- 50 \<le> speed + cal" "speed + cal \<le> 150" "speed + cal \<le> 255"
    using h by simp_all
  have pack: "struct_pack_1B (speed + cal) = Inl StructError \<longleftrightarrow> speed + cal < 0"
    using bounds by (auto simp add: struct_pack_1B_def)
  have run: "fst (control_motor self motor direction speed) =
      (if speed + cal < 0 then Some StructError else None)"
  proof (cases "speed + cal < 0")
    case True
    with h have "control_motor self motor direction speed = (Some StructError, self)"
      by (intro control_motor_raises) auto
    with True show ?thesis by simp
  next
    case False
    with h bounds have "control_motor self motor direction speed =
        (None, send_data self
           [[if motor = ''a'' then 202 else 203],
            [if direction = ''forward'' then 0 else 1],
            [word_of_int (speed + cal)]])"
      by (intro control_motor_sends) auto
    with False show ?thesis by simp
  qed
  show "\<exists>opc d eff. motor_data_array self motor direction speed = Inr [opc, d, eff] \<and>
         eff = speed + cal \<and> - 50 \<le> eff \<and> eff \<le> 150 \<and> eff \<le> 255 \<and>
         (struct_pack_1B eff = Inl StructError \<longleftrightarrow> eff < 0) \<and>
         (fst (control_motor self motor direction speed) = Some StructError \<longleftrightarrow> eff < 0) \<and>
         (fst (control_motor self motor direction speed) = None \<longleftrightarrow> 0 \<le> eff)"
    using arr bounds pack run by auto
next
  show "motor_cal_values (snd (control_motor s1 m1 d1 v1)) = motor_cal_values s1"
    by (simp add: control_motor_def send_data_written split: sum.splits)
next
  show "motor_cal_values (snd (control_servo_motor s2 p2)) = motor_cal_values s2"
    by (simp add: control_servo_motor_def send_data_written split: sum.splits option.splits)
next
  show "motor_cal_values (snd (control_rgb_led s3 r3 g3 b3)) = motor_cal_values s3"
    by (simp add: control_rgb_led_def send_data_written split: sum.splits option.splits)
next
  show "motor_cal_values (snd (control_buzzer s4 b4)) = motor_cal_values s4"
    by (simp add: control_buzzer_def send_data_written split: sum.splits option.splits)
qed

theorem effective_speed_range_witness:
  "motor_cal_values (robot 50 (- 50) []) ''a'' = Some 50 \<and>
   motor_data_array (robot 50 (- 50) []) ''a'' ''forward'' 100 = Inr [202, 0, 150] \<and>
   fst (control_motor (robot 50 (- 50) []) ''a'' ''forward'' 100) = None \<and>
   motor_cal_values (snd (control_motor (robot 50 (- 50) []) ''a'' ''forward'' 100)) ''a'' =
     Some 50 \<and>
   motor_cal_values (snd (control_motor (robot 50 (- 50) []) ''a'' ''forward'' 100)) ''b'' =
     Some (- 50)"
proof -
  have arr: "motor_data_array (robot 50 (- 50) []) ''a'' ''forward'' 100 = Inr [202, 0, 150]"
    by (simp add: init_state motor_data_array_def opcode_lookup direction_lookup)
  show ?thesis
    using effective_speed_range [of "''a''" "''forward''" 100 "robot 50 (- 50) []" 50
        "robot 50 (- 50) []" "''a''" "''forward''" 100]
    by (simp add: arr) (simp add: init_state)
qed


section \<open>Telemetry\<close>

text \<open>
  C4. When at least six bytes arrive, \<^verbatim>\<open>get_data_from_sensors\<close> returns normally
  (the method has no return value), consumes exactly the first six of them, stores the
  byte at index 1 as the input-button state and the byte at index 4 as the distance, and
  changes nothing else. The frame 99, 1, 99, 122, 37, 122 gives button state 1 and
  distance 37.
\<close>

theorem get_data_from_sensors_decodes:
  assumes "6 \<le> length (incoming (serial_connection self))"
  shows "get_data_from_sensors self =
           (None,
            self\<lparr>serial_connection :=
                   (serial_connection self)\<lparr>incoming := drop 6 (incoming (serial_connection self))\<rparr>,
                 input_button_state := Some (uint (incoming (serial_connection self) ! 1)),
                 distance_sensor := Some (uint (incoming (serial_connection self) ! 4))\<rparr>)"
  using assms
  by (simp add: get_data_from_sensors_def receive_data_def serial_read_def
      struct_unpack_6B_def)

theorem get_data_from_sensors_decodes_witness:
  "6 \<le> length (incoming (serial_connection (robot 0 0 [99, 1, 99, 122, 37, 122]))) \<and>
   fst (get_data_from_sensors (robot 0 0 [99, 1, 99, 122, 37, 122])) = None \<and>
   input_button_state (snd (get_data_from_sensors (robot 0 0 [99, 1, 99, 122, 37, 122]))) =
     Some 1 \<and>
   distance_sensor (snd (get_data_from_sensors (robot 0 0 [99, 1, 99, 122, 37, 122]))) =
     Some 37 \<and>
   incoming (serial_connection
     (snd (get_data_from_sensors (robot 0 0 [99, 1, 99, 122, 37, 122])))) = []"
  using get_data_from_sensors_decodes [of "robot 0 0 [99, 1, 99, 122, 37, 122]"]
  by (simp add: init_state)

text \<open>
  C5, as the code has it. The decoder does not look at the marker bytes: the frame
  1, 2, 3, 4, 5, 6, none of whose markers is 99 or 122, is accepted without an error and
  decoded to button state 2 and distance 5.
\<close>

theorem marker_check_counterexample:
  "fst (get_data_from_sensors (robot 0 0 [1, 2, 3, 4, 5, 6])) = None \<and>
   input_button_state (snd (get_data_from_sensors (robot 0 0 [1, 2, 3, 4, 5, 6]))) = Some 2 \<and>
   distance_sensor (snd (get_data_from_sensors (robot 0 0 [1, 2, 3, 4, 5, 6]))) = Some 5"
  by (simp add: init_state get_data_from_sensors_def receive_data_def serial_read_def
      struct_unpack_6B_def)

text \<open>
  C5, amended. Every six bytes are accepted as a telemetry frame, whatever stands at the
  marker positions 0, 2, 3 and 5: the call returns normally and the cached values are the
  bytes at positions 1 and 4.
\<close>

theorem any_frame_accepted:
  assumes "incoming (serial_connection self) = b0 # b1 # b2 # b3 # b4 # b5 # rest"
  shows "fst (get_data_from_sensors self) = None \<and>
         input_button_state (snd (get_data_from_sensors self)) = Some (uint b1) \<and>
         distance_sensor (snd (get_data_from_sensors self)) = Some (uint b4) \<and>
         incoming (serial_connection (snd (get_data_from_sensors self))) = rest"
  using assms
  by (simp add: get_data_from_sensors_def receive_data_def serial_read_def
      struct_unpack_6B_def)

theorem any_frame_accepted_witness:
  "incoming (serial_connection (robot 0 0 [98, 0, 99, 122, 200, 121, 7])) =
     [98, 0, 99, 122, 200, 121, 7] \<and>
   fst (get_data_from_sensors (robot 0 0 [98, 0, 99, 122, 200, 121, 7])) = None \<and>
   input_button_state (snd (get_data_from_sensors (robot 0 0 [98, 0, 99, 122, 200, 121, 7]))) =
     Some 0 \<and>
   distance_sensor (snd (get_data_from_sensors (robot 0 0 [98, 0, 99, 122, 200, 121, 7]))) =
     Some 200 \<and>
   incoming (serial_connection
     (snd (get_data_from_sensors (robot 0 0 [98, 0, 99, 122, 200, 121, 7])))) = [7]"
  using any_frame_accepted [of "robot 0 0 [98, 0, 99, 122, 200, 121, 7]" 98 0 99 122 200 121 "[7]"]
  by (simp add: init_state)

text \<open>
  C9. When fewer than six bytes arrive before the timeout, \<^verbatim>\<open>get_data_from_sensors\<close>
  raises (the \<^verbatim>\<open>struct.error\<close> of unpacking the short buffer, which is how the failed
  read surfaces), and the cached input-button state and distance are the ones before the
  call. The bytes that did arrive are consumed.
\<close>

theorem short_read_keeps_cache:
  assumes "length (incoming (serial_connection self)) < 6"
  shows "get_data_from_sensors self =
           (Some StructError,
            self\<lparr>serial_connection := (serial_connection self)\<lparr>incoming := []\<rparr>\<rparr>) \<and>
         input_button_state (snd (get_data_from_sensors self)) = input_button_state self \<and>
         distance_sensor (snd (get_data_from_sensors self)) = distance_sensor self"
  using assms
  by (simp add: get_data_from_sensors_def receive_data_def serial_read_def
      struct_unpack_6B_def)

theorem short_read_keeps_cache_witness:
  "length (incoming (serial_connection
     (snd (get_data_from_sensors (robot 0 0 [99, 1, 99, 122, 37, 122, 99, 0, 99]))))) < 6 \<and>
   fst (get_data_from_sensors
     (snd (get_data_from_sensors (robot 0 0 [99, 1, 99, 122, 37, 122, 99, 0, 99])))) =
     Some StructError \<and>
   input_button_state (snd (get_data_from_sensors
     (snd (get_data_from_sensors (robot 0 0 [99, 1, 99, 122, 37, 122, 99, 0, 99]))))) =
     Some 1 \<and>
   distance_sensor (snd (get_data_from_sensors
     (snd (get_data_from_sensors (robot 0 0 [99, 1, 99, 122, 37, 122, 99, 0, 99]))))) =
     Some 37"
proof -
  let ?r1 = "(robot 0 0 [99, 0, 99])\<lparr>input_button_state := Some 1, distance_sensor := Some 37\<rparr>"
  have first: "get_data_from_sensors (robot 0 0 [99, 1, 99, 122, 37, 122, 99, 0, 99]) =
      (None, ?r1)"
    by (simp add: init_state get_data_from_sensors_def receive_data_def serial_read_def
        struct_unpack_6B_def)
  have short: "length (incoming (serial_connection ?r1)) < 6"
    by (simp add: init_state)
  show ?thesis
    using short short_read_keeps_cache [OF short]
    by (simp add: first)
qed

end
